theory Spec2Isabelle
  imports Main
begin

section \<open>Python values\<close>

text \<open>
  The program in \<^verbatim>\<open>single_responsability/refactor_code.py\<close> handles plain Python
  dictionaries. A value is \<^verbatim>\<open>None\<close>, a boolean, an integer, a string or a dictionary
  with string keys; a dictionary is an association list in insertion order, looked up
  with \<open>map_of\<close>. These are the values that the fields of a customer, a payment and a
  Charge take; lists and floating-point numbers are left out.
\<close>

datatype pyval =
    PNone
  | PBool bool
  | PInt int
  | PStr string
  | PDict "(string \<times> pyval) list"

type_synonym pydict = "(string \<times> pyval) list"

text \<open>
  The exceptions that can leave the program. \<open>ValueError\<close> is what the validators raise,
  \<open>StripeError\<close> (with the text of the provider's error) is what the Stripe SDK raises;
  \<open>KeyError\<close> and \<open>TypeError\<close> are raised by the interpreter on a missing key and on an
  operand of the wrong type.
\<close>

datatype py_error =
    ValueError string
  | KeyError string
  | TypeError
  | StripeError string

text \<open>Truth value testing, as \<^verbatim>\<open>not x\<close> applies it.\<close>

fun truthy :: "pyval \<Rightarrow> bool" where
  "truthy PNone = False"
| "truthy (PBool b) = b"
| "truthy (PInt i) = (i \<noteq> 0)"
| "truthy (PStr s) = (s \<noteq> [])"
| "truthy (PDict d) = (d \<noteq> [])"

text \<open>\<^verbatim>\<open>d.get(k)\<close>: the value, or \<^verbatim>\<open>None\<close> when the key is missing.\<close>

definition dict_get :: "pydict \<Rightarrow> string \<Rightarrow> pyval" where
  "dict_get d k = (case map_of d k of None \<Rightarrow> PNone | Some v \<Rightarrow> v)"

text \<open>\<^verbatim>\<open>d[k]\<close> on a dictionary: raises \<^verbatim>\<open>KeyError\<close> when the key is missing.\<close>

definition getitem :: "pydict \<Rightarrow> string \<Rightarrow> py_error + pyval" where
  "getitem d k = (case map_of d k of None \<Rightarrow> Inl (KeyError k) | Some v \<Rightarrow> Inr v)"

text \<open>\<^verbatim>\<open>x[k]\<close> with a string key on any value: only a dictionary accepts it.\<close>

fun subscript :: "pyval \<Rightarrow> string \<Rightarrow> py_error + pyval" where
  "subscript (PDict d) k = getitem d k"
| "subscript PNone k = Inl TypeError"
| "subscript (PBool b) k = Inl TypeError"
| "subscript (PInt i) k = Inl TypeError"
| "subscript (PStr s) k = Inl TypeError"

fun is_substring :: "string \<Rightarrow> string \<Rightarrow> bool" where
  "is_substring xs [] = (xs = [])"
| "is_substring xs (y # ys) = (take (length xs) (y # ys) = xs \<or> is_substring xs ys)"

text \<open>
  \<^verbatim>\<open>k in x\<close> for a string \<open>k\<close>: key membership on a dictionary, substring test on a
  string, \<^verbatim>\<open>TypeError\<close> on a value that is not a container.
\<close>

fun contains :: "string \<Rightarrow> pyval \<Rightarrow> py_error + bool" where
  "contains k (PDict d) = Inr (map_of d k \<noteq> None)"
| "contains k (PStr s) = Inr (is_substring k s)"
| "contains k PNone = Inl TypeError"
| "contains k (PBool b) = Inl TypeError"
| "contains k (PInt i) = Inl TypeError"

text \<open>\<^verbatim>\<open>"literal" + x\<close>: concatenation with a string, \<^verbatim>\<open>TypeError\<close> otherwise.\<close>

fun str_add :: "string \<Rightarrow> pyval \<Rightarrow> py_error + string" where
  "str_add s (PStr t) = Inr (s @ t)"
| "str_add s PNone = Inl TypeError"
| "str_add s (PBool b) = Inl TypeError"
| "str_add s (PInt i) = Inl TypeError"
| "str_add s (PDict d) = Inl TypeError"

subsection \<open>Formatting\<close>

definition digit_char :: "nat \<Rightarrow> char" where
  "digit_char n = ''0123456789'' ! n"

function str_of_nat :: "nat \<Rightarrow> string" where
  "str_of_nat n =
     (if n < 10 then [digit_char n] else str_of_nat (n div 10) @ [digit_char (n mod 10)])"
  by pat_completeness auto
termination
  by (relation "measure id") auto

declare str_of_nat.simps [simp del]

definition str_of_int :: "int \<Rightarrow> string" where
  "str_of_int i = (if i < 0 then ''-'' @ str_of_nat (nat (- i)) else str_of_nat (nat i))"

text \<open>
  What an f-string field \<^verbatim>\<open>{x}\<close> renders. The rendering of a dictionary is Python's
  built-in \<^verbatim>\<open>repr\<close>, which is not part of the program: it is the parameter \<open>rd\<close>.
\<close>

fun py_str :: "(pydict \<Rightarrow> string) \<Rightarrow> pyval \<Rightarrow> string" where
  "py_str rd PNone = ''None''"
| "py_str rd (PBool b) = (if b then ''True'' else ''False'')"
| "py_str rd (PInt i) = str_of_int i"
| "py_str rd (PStr s) = s"
| "py_str rd (PDict d) = rd d"

definition newline :: string where
  "newline = [CHR 0x0A]"

section \<open>The world outside the program\<close>

text \<open>
  The keyword arguments of \<^verbatim>\<open>stripe.Charge.create\<close> as the program passes them.
\<close>

record charge_request =
  amount :: pyval
  currency :: string
  source :: pyval
  description :: string

text \<open>
  The observable actions other than file writes, in the order they happen.
  Both notification transports are stubs in the source: \<open>Email to\<close> stands for lines
  49 to 57 (the message built for \<open>to\<close> and \<^verbatim>\<open>print("Email sent to", to)\<close>),
  \<open>SMS to\<close> for lines 60 to 64. \<open>Print\<close> is a diagnostic line on standard output,
  \<open>ChargeCreate key req\<close> a call of \<^verbatim>\<open>stripe.Charge.create\<close> under the API key \<open>key\<close>.
\<close>

datatype event =
    Print string
  | Email pyval
  | SMS pyval
  | ChargeCreate "string option" charge_request

record world =
  files :: "string \<rightharpoonup> string"
  trace :: "event list"
  stripe_api_key :: "string option"

text \<open>
  What the program reads from outside: the environment variable, the provider's answer
  to a charge request (\<open>Inl\<close> the text of the \<^verbatim>\<open>StripeError\<close> it raises, \<open>Inr\<close> the
  Charge object), and the interpreter's rendering of dictionaries.
\<close>

record env =
  STRIPE_API_KEY :: "string option"
  Charge_create :: "string option \<Rightarrow> charge_request \<Rightarrow> string + pydict"
  repr_dict :: "pydict \<Rightarrow> string"

subsection \<open>Computations with effects and exceptions\<close>

type_synonym 'a io = "world \<Rightarrow> (py_error + 'a) \<times> world"

definition return :: "'a \<Rightarrow> 'a io" where
  "return x = (\<lambda>w. (Inr x, w))"

definition raise :: "py_error \<Rightarrow> 'a io" where
  "raise e = (\<lambda>w. (Inl e, w))"

definition lift :: "py_error + 'a \<Rightarrow> 'a io" where
  "lift r = (\<lambda>w. (r, w))"

definition io_bind :: "'a io \<Rightarrow> ('a \<Rightarrow> 'b io) \<Rightarrow> 'b io" where
  "io_bind m f = (\<lambda>w. case m w of (Inl e, w') \<Rightarrow> (Inl e, w') | (Inr x, w') \<Rightarrow> f x w')"

text \<open>
  \<^verbatim>\<open>try: m except ...\<close>: the handler answers \<open>None\<close> for an exception that no
  \<^verbatim>\<open>except\<close> clause matches, which then propagates.
\<close>

definition try_except :: "'a io \<Rightarrow> (py_error \<Rightarrow> 'a io option) \<Rightarrow> 'a io" where
  "try_except m h = (\<lambda>w. case m w of
       (Inl e, w') \<Rightarrow> (case h e of None \<Rightarrow> (Inl e, w') | Some k \<Rightarrow> k w')
     | (Inr x, w') \<Rightarrow> (Inr x, w'))"

fun except_ValueError :: "(string \<Rightarrow> 'a io) \<Rightarrow> py_error \<Rightarrow> 'a io option" where
  "except_ValueError k (ValueError m) = Some (k m)"
| "except_ValueError k (KeyError m) = None"
| "except_ValueError k TypeError = None"
| "except_ValueError k (StripeError m) = None"

fun except_StripeError :: "(string \<Rightarrow> 'a io) \<Rightarrow> py_error \<Rightarrow> 'a io option" where
  "except_StripeError k (StripeError m) = Some (k m)"
| "except_StripeError k (ValueError m) = None"
| "except_StripeError k (KeyError m) = None"
| "except_StripeError k TypeError = None"

definition emit :: "event \<Rightarrow> unit io" where
  "emit ev = (\<lambda>w. (Inr (), w\<lparr>trace := trace w @ [ev]\<rparr>))"

text \<open>
  \<^verbatim>\<open>open(path, "a")\<close> creates the file when it does not exist; \<^verbatim>\<open>write\<close> on the
  handle adds the text at the end. The handle is closed when the \<^verbatim>\<open>with\<close> block is
  left, also by an exception, so what was written before the exception stays.
  The file system of this model never refuses: an \<^verbatim>\<open>OSError\<close> of the host (no
  permission, no space) is outside it.
\<close>

definition file_text :: "world \<Rightarrow> string \<Rightarrow> string" where
  "file_text w path = (case files w path of None \<Rightarrow> [] | Some t \<Rightarrow> t)"

definition open_append :: "string \<Rightarrow> unit io" where
  "open_append path = (\<lambda>w. (Inr (), w\<lparr>files := (files w)(path \<mapsto> file_text w path)\<rparr>))"

definition file_write :: "string \<Rightarrow> string \<Rightarrow> unit io" where
  "file_write path s = (\<lambda>w. (Inr (), w\<lparr>files := (files w)(path \<mapsto> file_text w path @ s)\<rparr>))"

section \<open>The program\<close>

subsection \<open>CustomerValidator (lines 22 to 30)\<close>

definition CustomerValidator_validate :: "pydict \<Rightarrow> unit io" where
  "CustomerValidator_validate customer_data =
     (if \<not> truthy (dict_get customer_data ''name'') then
        io_bind (emit (Print ''Invalid customer data: missing name''))
          (\<lambda>_. raise (ValueError ''Invalid customer data: missing name''))
      else if \<not> truthy (dict_get customer_data ''contact_info'') then
        io_bind (emit (Print ''Invalid customer data: missing contact info''))
          (\<lambda>_. raise (ValueError ''Invalid customer data: missing contact info''))
      else return ())"

subsection \<open>PaymentDataValidator (lines 34 to 38)\<close>

definition PaymentDataValidator_validate :: "pydict \<Rightarrow> unit io" where
  "PaymentDataValidator_validate payment_data =
     (if \<not> truthy (dict_get payment_data ''source'') then
        io_bind (emit (Print ''Invalid payment data''))
          (\<lambda>_. raise (ValueError ''Invalid payment data''))
      else return ())"

subsection \<open>Notifier (lines 43 to 64)\<close>

text \<open>
  The source evaluates \<^verbatim>\<open>customer_data["contact_info"]\<close> again at each use; the
  lookup has no effect and gives the same value each time, so it is bound once.
\<close>

definition Notifier_send_confirmation :: "pydict \<Rightarrow> unit io" where
  "Notifier_send_confirmation customer_data =
     io_bind (lift (getitem customer_data ''contact_info'')) (\<lambda>contact_info.
     io_bind (lift (contains ''email'' contact_info)) (\<lambda>has_email.
       if has_email then
         io_bind (lift (subscript contact_info ''email'')) (\<lambda>to. emit (Email to))
       else
         io_bind (lift (contains ''phone'' contact_info)) (\<lambda>has_phone.
           if has_phone then
             io_bind (lift (subscript contact_info ''phone'')) (\<lambda>phone_number.
               emit (SMS phone_number))
           else return ())))"

subsection \<open>TransactionLogger (lines 69 to 74)\<close>

definition log_path :: string where
  "log_path = ''transactions.log''"

definition TransactionLogger_log :: "env \<Rightarrow> pydict \<Rightarrow> pydict \<Rightarrow> pydict \<Rightarrow> unit io" where
  "TransactionLogger_log ev customer_data payment_data charge =
     io_bind (open_append log_path) (\<lambda>_.
     io_bind (lift (getitem customer_data ''name'')) (\<lambda>name.
     io_bind (lift (getitem payment_data ''amount'')) (\<lambda>amt.
     io_bind (file_write log_path
                (py_str (repr_dict ev) name @ '' paid '' @ py_str (repr_dict ev) amt @ newline)) (\<lambda>_.
     io_bind (lift (getitem charge ''status'')) (\<lambda>status.
       file_write log_path (''Payment status: '' @ py_str (repr_dict ev) status @ newline))))))"

subsection \<open>StripePaymentProcessor (lines 78 to 94)\<close>

definition set_api_key :: "string option \<Rightarrow> unit io" where
  "set_api_key k = (\<lambda>w. (Inr (), w\<lparr>stripe_api_key := k\<rparr>))"

text \<open>
  \<^verbatim>\<open>stripe.Charge.create(...)\<close>: the keyword arguments are evaluated from left to
  right, then the provider is called once under the API key set before.
\<close>

definition stripe_Charge_create :: "env \<Rightarrow> charge_request \<Rightarrow> pydict io" where
  "stripe_Charge_create ev req = (\<lambda>w.
     let w' = w\<lparr>trace := trace w @ [ChargeCreate (stripe_api_key w) req]\<rparr> in
     case Charge_create ev (stripe_api_key w) req of
       Inl detail \<Rightarrow> (Inl (StripeError detail), w')
     | Inr ch \<Rightarrow> (Inr ch, w'))"

definition StripePaymentProcessor_process_transaction :: "env \<Rightarrow> pydict \<Rightarrow> pydict \<Rightarrow> pydict io" where
  "StripePaymentProcessor_process_transaction ev customer_data payment_data =
     io_bind (set_api_key (STRIPE_API_KEY ev)) (\<lambda>_.
     try_except
       (io_bind (lift (getitem payment_data ''amount'')) (\<lambda>amt.
        io_bind (lift (getitem payment_data ''source'')) (\<lambda>src.
        io_bind (lift (getitem customer_data ''name'')) (\<lambda>name.
        io_bind (lift (str_add ''Charge for '' name)) (\<lambda>descr.
        io_bind (stripe_Charge_create ev
                   \<lparr>amount = amt, currency = ''usd'', source = src, description = descr\<rparr>) (\<lambda>charge.
        io_bind (emit (Print ''Payment successful'')) (\<lambda>_.
          return charge)))))))
       (except_StripeError (\<lambda>e.
          io_bind (emit (Print (''Payment failed: '' @ e))) (\<lambda>_. raise (StripeError e)))))"

subsection \<open>PaymentService (lines 100 to 126)\<close>

definition PaymentService_process_transaction :: "env \<Rightarrow> pydict \<Rightarrow> pydict \<Rightarrow> pydict io" where
  "PaymentService_process_transaction ev customer_data payment_data =
     io_bind (try_except (CustomerValidator_validate customer_data)
                (except_ValueError (\<lambda>e. raise (ValueError e)))) (\<lambda>_.
     io_bind (try_except (PaymentDataValidator_validate payment_data)
                (except_ValueError (\<lambda>e. raise (ValueError e)))) (\<lambda>_.
     try_except
       (io_bind (StripePaymentProcessor_process_transaction ev customer_data payment_data) (\<lambda>charge.
        io_bind (Notifier_send_confirmation customer_data) (\<lambda>_.
        io_bind (TransactionLogger_log ev customer_data payment_data charge) (\<lambda>_.
          return charge))))
       (except_StripeError (\<lambda>e. raise (StripeError e)))))"

section \<open>Observations and sample data\<close>

fun is_notification :: "event \<Rightarrow> bool" where
  "is_notification (Email to) = True"
| "is_notification (SMS to) = True"
| "is_notification (Print s) = False"
| "is_notification (ChargeCreate k r) = False"

text \<open>The notifications dispatched so far, oldest first.\<close>

definition notifications :: "world \<Rightarrow> event list" where
  "notifications w = filter is_notification (trace w)"

text \<open>A fresh world: no file, nothing done yet, no API key set.\<close>

definition w0 :: world where
  "w0 = \<lparr>files = Map.empty, trace = [], stripe_api_key = None\<rparr>"

text \<open>The dictionaries of the demonstration at the end of the source (lines 132 to 146).\<close>

definition customer_data_with_email :: pydict where
  "customer_data_with_email =
     [(''name'', PStr ''John Doe''),
      (''contact_info'', PDict [(''email'', PStr ''e@mail.com'')])]"

definition customer_data_with_phone :: pydict where
  "customer_data_with_phone =
     [(''name'', PStr ''Platzi Python''),
      (''contact_info'', PDict [(''phone'', PStr ''1234567890'')])]"

definition payment_data_500 :: pydict where
  "payment_data_500 =
     [(''amount'', PInt 500), (''source'', PStr ''tok_mastercard''), (''cvv'', PInt 123)]"

definition payment_data_700 :: pydict where
  "payment_data_700 =
     [(''amount'', PInt 700), (''source'', PStr ''tok_radarBlock''), (''cvv'', PInt 123)]"

text \<open>
  A customer whose \<^verbatim>\<open>contact_info\<close> is a string instead of a dictionary: it passes the
  validator, and line 45 finds \<^verbatim>\<open>"email"\<close> in it as a substring.
\<close>

definition customer_data_bad_contact :: pydict where
  "customer_data_bad_contact =
     [(''name'', PStr ''John Doe''), (''contact_info'', PStr ''email: e@mail.com'')]"

text \<open>
  A sample environment for the concrete instances below: a provider that rejects the
  token \<^verbatim>\<open>tok_radarBlock\<close> and accepts every other request with a Charge of status
  \<^verbatim>\<open>succeeded\<close>.
\<close>

definition test_env :: env where
  "test_env = \<lparr>STRIPE_API_KEY = Some ''sk_test'',
     Charge_create = (\<lambda>key req.
        if source req = PStr ''tok_radarBlock'' then Inl ''Your card was declined.''
        else Inr [(''amount'', amount req), (''status'', PStr ''succeeded'')]),
     repr_dict = (\<lambda>d. ''{...}'')\<rparr>"

section \<open>Auxiliary facts\<close>

lemmas io_defs = io_bind_def return_def raise_def lift_def emit_def

lemma try_except_reraise_ValueError:
  "try_except m (except_ValueError (\<lambda>e. raise (ValueError e))) = m"
proof
  fix w
  show "try_except m (except_ValueError (\<lambda>e. raise (ValueError e))) w = m w"
  proof (cases "m w")
    case (Pair r w')
    then show ?thesis
    proof (cases r)
      case (Inl e)
      with Pair show ?thesis by (cases e) (simp_all add: try_except_def raise_def)
    next
      case (Inr x)
      with Pair show ?thesis by (simp add: try_except_def)
    qed
  qed
qed

lemma try_except_reraise_StripeError:
  "try_except m (except_StripeError (\<lambda>e. raise (StripeError e))) = m"
proof
  fix w
  show "try_except m (except_StripeError (\<lambda>e. raise (StripeError e))) w = m w"
  proof (cases "m w")
    case (Pair r w')
    then show ?thesis
    proof (cases r)
      case (Inl e)
      with Pair show ?thesis by (cases e) (simp_all add: try_except_def raise_def)
    next
      case (Inr x)
      with Pair show ?thesis by (simp add: try_except_def)
    qed
  qed
qed

text \<open>
  Every \<^verbatim>\<open>except\<close> clause of the service raises the exception it caught again, so the
  service is the plain sequence of its five steps.
\<close>

lemma service_sequence:
  "PaymentService_process_transaction ev c p =
     io_bind (CustomerValidator_validate c) (\<lambda>_.
     io_bind (PaymentDataValidator_validate p) (\<lambda>_.
     io_bind (StripePaymentProcessor_process_transaction ev c p) (\<lambda>charge.
     io_bind (Notifier_send_confirmation c) (\<lambda>_.
     io_bind (TransactionLogger_log ev c p charge) (\<lambda>_. return charge)))))"
  by (simp add: PaymentService_process_transaction_def try_except_reraise_ValueError
      try_except_reraise_StripeError)

lemma CustomerValidator_validate_frame:
  "files (snd (CustomerValidator_validate c w)) = files w"
  "notifications (snd (CustomerValidator_validate c w)) = notifications w"
  by (simp_all add: CustomerValidator_validate_def io_defs notifications_def)

lemma CustomerValidator_validate_result:
  "fst (CustomerValidator_validate c w) = fst (CustomerValidator_validate c w')"
  by (simp add: CustomerValidator_validate_def io_defs)

lemma PaymentDataValidator_validate_frame:
  "files (snd (PaymentDataValidator_validate p w)) = files w"
  "notifications (snd (PaymentDataValidator_validate p w)) = notifications w"
  by (simp_all add: PaymentDataValidator_validate_def io_defs notifications_def)

lemma PaymentDataValidator_validate_result:
  "fst (PaymentDataValidator_validate p w) = fst (PaymentDataValidator_validate p w')"
  by (simp add: PaymentDataValidator_validate_def io_defs)

lemma getitem_Inl: "getitem d k = Inl e \<longleftrightarrow> map_of d k = None \<and> e = KeyError k"
  by (auto simp: getitem_def split: option.splits)

lemma io_bind_lift:
  "io_bind (lift r) f w = (case r of Inl e \<Rightarrow> (Inl e, w) | Inr x \<Rightarrow> f x w)"
  by (simp add: io_bind_def lift_def split: sum.splits)

lemma try_except_bind_lift:
  "try_except (io_bind (lift r) f) h w =
     (case r of Inl e \<Rightarrow> (case h e of None \<Rightarrow> (Inl e, w) | Some k \<Rightarrow> k w)
              | Inr x \<Rightarrow> try_except (f x) h w)"
  by (simp add: try_except_def io_bind_def lift_def split: sum.splits)

lemma StripePaymentProcessor_unfold:
  "StripePaymentProcessor_process_transaction ev c p w =
    (let w1 = w\<lparr>stripe_api_key := STRIPE_API_KEY ev\<rparr> in
     case getitem p ''amount'' of Inl e \<Rightarrow> (Inl e, w1) | Inr a \<Rightarrow>
     (case getitem p ''source'' of Inl e \<Rightarrow> (Inl e, w1) | Inr s \<Rightarrow>
     (case getitem c ''name'' of Inl e \<Rightarrow> (Inl e, w1) | Inr n \<Rightarrow>
     (case str_add ''Charge for '' n of Inl e \<Rightarrow> (Inl e, w1) | Inr d \<Rightarrow>
     (let req = \<lparr>amount = a, currency = ''usd'', source = s, description = d\<rparr> in
      case Charge_create ev (STRIPE_API_KEY ev) req of
        Inl detail \<Rightarrow>
          (Inl (StripeError detail),
           w1\<lparr>trace := trace w @ [ChargeCreate (STRIPE_API_KEY ev) req,
                                  Print (''Payment failed: '' @ detail)]\<rparr>)
      | Inr charge \<Rightarrow>
          (Inr charge,
           w1\<lparr>trace := trace w @ [ChargeCreate (STRIPE_API_KEY ev) req,
                                  Print ''Payment successful'']\<rparr>))))))"
proof -
  have call: "try_except
         (io_bind (stripe_Charge_create ev req) (\<lambda>charge.
          io_bind (emit (Print ok)) (\<lambda>_. return charge)))
         (except_StripeError (\<lambda>e.
          io_bind (emit (Print (failed e))) (\<lambda>_. raise (StripeError e)))) w1 =
       (case Charge_create ev (stripe_api_key w1) req of
          Inl detail \<Rightarrow>
            (Inl (StripeError detail),
             w1\<lparr>trace := trace w1 @ [ChargeCreate (stripe_api_key w1) req,
                                     Print (failed detail)]\<rparr>)
        | Inr charge \<Rightarrow>
            (Inr charge,
             w1\<lparr>trace := trace w1 @ [ChargeCreate (stripe_api_key w1) req,
                                     Print ok]\<rparr>))" for req w1 ok failed
    by (simp add: try_except_def stripe_Charge_create_def io_defs Let_def split: sum.splits)
  have key: "getitem d k = Inl e \<Longrightarrow> except_StripeError h e = None" for d k e
    and h :: "string \<Rightarrow> pydict io"
    by (simp add: getitem_Inl)
  have ty: "str_add s v = Inl e \<Longrightarrow> except_StripeError h e = None" for s v e
    and h :: "string \<Rightarrow> pydict io"
    by (cases v) auto
  have start: "io_bind (set_api_key k) f w = f () (w\<lparr>stripe_api_key := k\<rparr>)"
    for k and f :: "unit \<Rightarrow> pydict io"
    by (simp add: io_bind_def set_api_key_def)
  show ?thesis
    unfolding StripePaymentProcessor_process_transaction_def start
    by (simp add: try_except_bind_lift call key ty Let_def split: sum.splits)
qed

lemma StripePaymentProcessor_frame:
  "files (snd (StripePaymentProcessor_process_transaction ev c p w)) = files w"
  "notifications (snd (StripePaymentProcessor_process_transaction ev c p w)) = notifications w"
  by (simp_all add: StripePaymentProcessor_unfold notifications_def Let_def split: sum.splits)

lemma StripePaymentProcessor_result:
  "fst (StripePaymentProcessor_process_transaction ev c p w) =
   fst (StripePaymentProcessor_process_transaction ev c p w')"
  by (simp add: StripePaymentProcessor_unfold Let_def split: sum.splits)

lemma Notifier_frame:
  "files (snd (Notifier_send_confirmation c w)) = files w"
  by (simp add: Notifier_send_confirmation_def io_bind_lift emit_def return_def split: sum.splits)

lemmas sample_defs = test_env_def customer_data_with_email_def customer_data_with_phone_def
  payment_data_500_def payment_data_700_def w0_def

lemmas Notifier_simps = Notifier_send_confirmation_def io_bind_lift emit_def return_def

lemmas Logger_simps = TransactionLogger_log_def io_defs open_append_def file_write_def
  file_text_def log_path_def

lemma contains_subscript:
  "contains k ci = Inr True \<Longrightarrow> subscript ci k = Inl (KeyError k') \<Longrightarrow> False"
  by (cases ci) (auto simp: getitem_def split: option.splits)

lemma Notifier_KeyError:
  assumes "fst (Notifier_send_confirmation c w) = Inl (KeyError k)"
  shows "map_of c ''contact_info'' = None"
proof (cases "map_of c ''contact_info''")
  case None
  then show ?thesis .
next
  case (Some ci)
  show ?thesis
  proof (cases "contains ''email'' ci")
    case (Inl e)
    then have "e = TypeError" by (cases ci) auto
    with Inl Some assms show ?thesis by (simp add: Notifier_simps getitem_def)
  next
    case e: (Inr has_email)
    show ?thesis
    proof (cases has_email)
      case True
      with e Some assms contains_subscript [of "''email''" ci k] show ?thesis
        by (auto simp: Notifier_simps getitem_def split: sum.splits)
    next
      case False
      show ?thesis
      proof (cases "contains ''phone'' ci")
        case (Inl e')
        then have "e' = TypeError" by (cases ci) auto
        with Inl e False Some assms show ?thesis by (simp add: Notifier_simps getitem_def)
      next
        case (Inr has_phone)
        with e False Some assms contains_subscript [of "''phone''" ci k] show ?thesis
          by (cases has_phone) (auto simp: Notifier_simps getitem_def split: sum.splits)
      qed
    qed
  qed
qed

lemma CustomerValidator_accepts:
  assumes "fst (CustomerValidator_validate c w) = Inr u"
  shows "map_of c ''contact_info'' \<noteq> None"
  using assms
  by (auto simp: CustomerValidator_validate_def io_defs dict_get_def
      split: if_splits option.splits)

lemma str_add_Inl: "str_add s v = Inl e \<Longrightarrow> e = TypeError"
  by (cases v) auto

lemma StripePaymentProcessor_no_contact_KeyError:
  "fst (StripePaymentProcessor_process_transaction ev c p w) \<noteq> Inl (KeyError ''contact_info'')"
  by (auto simp: StripePaymentProcessor_unfold Let_def getitem_Inl split: sum.splits
      dest: str_add_Inl)

lemma TransactionLogger_no_contact_KeyError:
  "fst (TransactionLogger_log ev c p ch w) \<noteq> Inl (KeyError ''contact_info'')"
  by (auto simp: Logger_simps getitem_def split: option.splits)

section \<open>The claims\<close>

subsection \<open>C1: nothing is logged and nobody is notified without a Charge\<close>

text \<open>
  Claim C1. For every \<open>customer_data\<close> and \<open>payment_data\<close>, when the customer validation,
  the payment validation or the charge step fails (in whatever world it is run), the
  service ends with an exception, leaves every file as it was, so no log entry is
  appended, and dispatches no notification.
\<close>

theorem no_log_or_notification_without_charge:
  assumes "isl (fst (CustomerValidator_validate c wa))
         \<or> isl (fst (PaymentDataValidator_validate p wb))
         \<or> isl (fst (StripePaymentProcessor_process_transaction ev c p wc))"
  shows "isl (fst (PaymentService_process_transaction ev c p w))
       \<and> files (snd (PaymentService_process_transaction ev c p w)) = files w
       \<and> notifications (snd (PaymentService_process_transaction ev c p w)) = notifications w"
proof -
  obtain r1 w1 where s1: "CustomerValidator_validate c w = (r1, w1)"
    by (cases "CustomerValidator_validate c w")
  obtain r2 w2 where s2: "PaymentDataValidator_validate p w1 = (r2, w2)"
    by (cases "PaymentDataValidator_validate p w1")
  obtain r3 w3 where s3: "StripePaymentProcessor_process_transaction ev c p w2 = (r3, w3)"
    by (cases "StripePaymentProcessor_process_transaction ev c p w2")
  have f1: "files w1 = files w" "notifications w1 = notifications w"
    using CustomerValidator_validate_frame [of c w] s1 by simp_all
  have f2: "files w2 = files w1" "notifications w2 = notifications w1"
    using PaymentDataValidator_validate_frame [of p w1] s2 by simp_all
  have f3: "files w3 = files w2" "notifications w3 = notifications w2"
    using StripePaymentProcessor_frame [of ev c p w2] s3 by simp_all
  have e1: "isl (fst (CustomerValidator_validate c wa)) = isl r1"
    using CustomerValidator_validate_result [of c wa w] s1 by simp
  have e2: "isl (fst (PaymentDataValidator_validate p wb)) = isl r2"
    using PaymentDataValidator_validate_result [of p wb w1] s2 by simp
  have e3: "isl (fst (StripePaymentProcessor_process_transaction ev c p wc)) = isl r3"
    using StripePaymentProcessor_result [of ev c p wc w2] s3 by simp
  from assms e1 e2 e3 have "isl r1 \<or> isl r2 \<or> isl r3" by simp
  then show ?thesis
    using s1 s2 s3 f1 f2 f3
    by (auto simp: service_sequence io_bind_def isl_def split: sum.splits)
qed

theorem no_log_or_notification_without_charge_witness:
  "isl (fst (StripePaymentProcessor_process_transaction test_env customer_data_with_email
              payment_data_700 w0))
   \<and> fst (PaymentService_process_transaction test_env customer_data_with_email payment_data_700 w0)
       = Inl (StripeError ''Your card was declined.'')
   \<and> files (snd (PaymentService_process_transaction test_env customer_data_with_email
                   payment_data_700 w0)) = Map.empty
   \<and> notifications (snd (PaymentService_process_transaction test_env customer_data_with_email
                           payment_data_700 w0)) = []"
proof -
  have h: "isl (fst (StripePaymentProcessor_process_transaction test_env customer_data_with_email
                      payment_data_700 w0))"
    by (simp add: StripePaymentProcessor_unfold sample_defs getitem_def)
  have r: "fst (PaymentService_process_transaction test_env customer_data_with_email
                 payment_data_700 w0) = Inl (StripeError ''Your card was declined.'')"
    by (simp add: service_sequence CustomerValidator_validate_def PaymentDataValidator_validate_def
        StripePaymentProcessor_unfold dict_get_def io_defs sample_defs getitem_def)
  from no_log_or_notification_without_charge
         [of customer_data_with_email w0 payment_data_700 w0 test_env w0 w0] h r
  show ?thesis by (simp add: w0_def notifications_def)
qed

subsection \<open>C2: the service runs its five steps in order and stops at the first failure\<close>

text \<open>
  Claim C2. The service runs validate-customer, validate-payment, charge, notify, log,
  each step in the world the previous one left. The exception of the first failing step
  is the result of the service and the world is the one that step left, so no later step
  has run; in particular when the notifier raises, the files are as they were before the
  call: nothing was logged. When every step succeeds the result is the Charge of the
  charge step, in the world the logger left.
\<close>

theorem service_runs_fixed_sequence:
  "(CustomerValidator_validate c w = (Inl e, w1) \<longrightarrow>
      PaymentService_process_transaction ev c p w = (Inl e, w1))
 \<and> (CustomerValidator_validate c w = (Inr u1, w1) \<and>
    PaymentDataValidator_validate p w1 = (Inl e, w2) \<longrightarrow>
      PaymentService_process_transaction ev c p w = (Inl e, w2))
 \<and> (CustomerValidator_validate c w = (Inr u1, w1) \<and>
    PaymentDataValidator_validate p w1 = (Inr u2, w2) \<and>
    StripePaymentProcessor_process_transaction ev c p w2 = (Inl e, w3) \<longrightarrow>
      PaymentService_process_transaction ev c p w = (Inl e, w3))
 \<and> (CustomerValidator_validate c w = (Inr u1, w1) \<and>
    PaymentDataValidator_validate p w1 = (Inr u2, w2) \<and>
    StripePaymentProcessor_process_transaction ev c p w2 = (Inr charge, w3) \<and>
    Notifier_send_confirmation c w3 = (Inl e, w4) \<longrightarrow>
      PaymentService_process_transaction ev c p w = (Inl e, w4) \<and> files w4 = files w)
 \<and> (CustomerValidator_validate c w = (Inr u1, w1) \<and>
    PaymentDataValidator_validate p w1 = (Inr u2, w2) \<and>
    StripePaymentProcessor_process_transaction ev c p w2 = (Inr charge, w3) \<and>
    Notifier_send_confirmation c w3 = (Inr u4, w4) \<and>
    TransactionLogger_log ev c p charge w4 = (Inl e, w5) \<longrightarrow>
      PaymentService_process_transaction ev c p w = (Inl e, w5))
 \<and> (CustomerValidator_validate c w = (Inr u1, w1) \<and>
    PaymentDataValidator_validate p w1 = (Inr u2, w2) \<and>
    StripePaymentProcessor_process_transaction ev c p w2 = (Inr charge, w3) \<and>
    Notifier_send_confirmation c w3 = (Inr u4, w4) \<and>
    TransactionLogger_log ev c p charge w4 = (Inr u5, w5) \<longrightarrow>
      PaymentService_process_transaction ev c p w = (Inr charge, w5))"
proof -
  have "files w4 = files w"
    if "CustomerValidator_validate c w = (Inr u1, w1)"
      and "PaymentDataValidator_validate p w1 = (Inr u2, w2)"
      and "StripePaymentProcessor_process_transaction ev c p w2 = (Inr charge, w3)"
      and "Notifier_send_confirmation c w3 = (Inl e, w4)"
    using that CustomerValidator_validate_frame(1) [of c w]
      PaymentDataValidator_validate_frame(1) [of p w1]
      StripePaymentProcessor_frame(1) [of ev c p w2] Notifier_frame [of c w3]
    by simp
  then show ?thesis
    by (simp add: service_sequence io_bind_def return_def)
qed

theorem service_runs_fixed_sequence_witness:
  "PaymentService_process_transaction test_env customer_data_with_email payment_data_500 w0 =
     (Inr [(''amount'', PInt 500), (''status'', PStr ''succeeded'')],
      \<lparr>files = [''transactions.log'' \<mapsto>
                  ''John Doe paid 500'' @ newline @ ''Payment status: succeeded'' @ newline],
       trace = [ChargeCreate (Some ''sk_test'')
                  \<lparr>amount = PInt 500, currency = ''usd'', source = PStr ''tok_mastercard'',
                   description = ''Charge for John Doe''\<rparr>,
                Print ''Payment successful'',
                Email (PStr ''e@mail.com'')],
       stripe_api_key = Some ''sk_test''\<rparr>)
 \<and> PaymentService_process_transaction test_env customer_data_bad_contact payment_data_500 w0 =
     (Inl TypeError,
      \<lparr>files = Map.empty,
       trace = [ChargeCreate (Some ''sk_test'')
                  \<lparr>amount = PInt 500, currency = ''usd'', source = PStr ''tok_mastercard'',
                   description = ''Charge for John Doe''\<rparr>,
                Print ''Payment successful''],
       stripe_api_key = Some ''sk_test''\<rparr>)"
  using service_runs_fixed_sequence
    [where c = customer_data_with_email and p = payment_data_500 and ev = test_env and w = w0
       and ?w1.0 = w0 and ?w2.0 = w0 and ?u1.0 = "()" and ?u2.0 = "()" and ?u4.0 = "()" and ?u5.0 = "()"
       and charge = "[(''amount'', PInt 500), (''status'', PStr ''succeeded'')]"
       and ?w3.0 = "\<lparr>files = Map.empty,
             trace = [ChargeCreate (Some ''sk_test'')
                  \<lparr>amount = PInt 500, currency = ''usd'', source = PStr ''tok_mastercard'',
                   description = ''Charge for John Doe''\<rparr>,
                Print ''Payment successful''], stripe_api_key = Some ''sk_test''\<rparr>"
       and ?w4.0 = "\<lparr>files = Map.empty,
             trace = [ChargeCreate (Some ''sk_test'')
                  \<lparr>amount = PInt 500, currency = ''usd'', source = PStr ''tok_mastercard'',
                   description = ''Charge for John Doe''\<rparr>,
                Print ''Payment successful'', Email (PStr ''e@mail.com'')],
             stripe_api_key = Some ''sk_test''\<rparr>"
       and ?w5.0 = "\<lparr>files = [''transactions.log'' \<mapsto>
                  ''John Doe paid 500'' @ newline @ ''Payment status: succeeded'' @ newline],
             trace = [ChargeCreate (Some ''sk_test'')
                  \<lparr>amount = PInt 500, currency = ''usd'', source = PStr ''tok_mastercard'',
                   description = ''Charge for John Doe''\<rparr>,
                Print ''Payment successful'', Email (PStr ''e@mail.com'')],
             stripe_api_key = Some ''sk_test''\<rparr>"]
    service_runs_fixed_sequence
    [where c = customer_data_bad_contact and p = payment_data_500 and ev = test_env and w = w0
       and ?w1.0 = w0 and ?w2.0 = w0 and ?u1.0 = "()" and ?u2.0 = "()" and e = TypeError
       and charge = "[(''amount'', PInt 500), (''status'', PStr ''succeeded'')]"
       and ?w3.0 = "\<lparr>files = Map.empty,
             trace = [ChargeCreate (Some ''sk_test'')
                  \<lparr>amount = PInt 500, currency = ''usd'', source = PStr ''tok_mastercard'',
                   description = ''Charge for John Doe''\<rparr>,
                Print ''Payment successful''], stripe_api_key = Some ''sk_test''\<rparr>"
       and ?w4.0 = "\<lparr>files = Map.empty,
             trace = [ChargeCreate (Some ''sk_test'')
                  \<lparr>amount = PInt 500, currency = ''usd'', source = PStr ''tok_mastercard'',
                   description = ''Charge for John Doe''\<rparr>,
                Print ''Payment successful''], stripe_api_key = Some ''sk_test''\<rparr>"]
  by (simp add: CustomerValidator_validate_def PaymentDataValidator_validate_def
      StripePaymentProcessor_unfold Notifier_send_confirmation_def TransactionLogger_log_def
      io_bind_lift io_defs open_append_def file_write_def file_text_def log_path_def
      dict_get_def getitem_def sample_defs customer_data_bad_contact_def
      str_of_int_def str_of_nat.simps digit_char_def newline_def)

subsection \<open>C3: the customer validator checks the name first\<close>

text \<open>
  Claim C3 promises the contact-info error whenever \<open>contact_info\<close> is absent or empty.
  In the empty dictionary both fields are absent, and the validator stops at the name.
\<close>

theorem customer_validator_both_missing_counterexample:
  "map_of ([] :: pydict) ''contact_info'' = None
   \<and> fst (CustomerValidator_validate [] w0) = Inl (ValueError ''Invalid customer data: missing name'')
   \<and> fst (CustomerValidator_validate [] w0) \<noteq>
       Inl (ValueError ''Invalid customer data: missing contact info'')"
  by (simp add: CustomerValidator_validate_def dict_get_def io_defs)

text \<open>
  Claim C3, as amended. \<open>CustomerValidator.validate\<close> raises the \<^verbatim>\<open>ValueError\<close> with the
  message \<^verbatim>\<open>Invalid customer data: missing name\<close> when \<open>name\<close> is absent or empty;
  when \<open>name\<close> is a non-empty string, it raises the \<^verbatim>\<open>ValueError\<close> with the message
  \<^verbatim>\<open>Invalid customer data: missing contact info\<close> when \<open>contact_info\<close> is absent or
  empty; it returns normally when both are present and non-empty. In general the two
  checks are truth tests of \<^verbatim>\<open>customer_data.get(...)\<close>, the name first.
\<close>

theorem customer_validator_checks_name_first:
  "(map_of c ''name'' = None \<or> map_of c ''name'' = Some (PStr '''') \<longrightarrow>
      CustomerValidator_validate c w =
        (Inl (ValueError ''Invalid customer data: missing name''),
         w\<lparr>trace := trace w @ [Print ''Invalid customer data: missing name'']\<rparr>))
   \<and> (map_of c ''name'' = Some (PStr n) \<and> n \<noteq> '''' \<and>
       (map_of c ''contact_info'' = None \<or> map_of c ''contact_info'' = Some (PDict [])) \<longrightarrow>
      CustomerValidator_validate c w =
        (Inl (ValueError ''Invalid customer data: missing contact info''),
         w\<lparr>trace := trace w @ [Print ''Invalid customer data: missing contact info'']\<rparr>))
   \<and> (map_of c ''name'' = Some (PStr n) \<and> n \<noteq> '''' \<and>
       map_of c ''contact_info'' = Some (PDict d) \<and> d \<noteq> [] \<longrightarrow>
      CustomerValidator_validate c w = (Inr (), w))
   \<and> fst (CustomerValidator_validate c w) =
       (if \<not> truthy (dict_get c ''name'')
          then Inl (ValueError ''Invalid customer data: missing name'')
        else if \<not> truthy (dict_get c ''contact_info'')
          then Inl (ValueError ''Invalid customer data: missing contact info'')
        else Inr ())"
  by (auto simp: CustomerValidator_validate_def dict_get_def io_defs split: option.splits)

theorem customer_validator_checks_name_first_witness:
  "CustomerValidator_validate [(''contact_info'', PDict [(''email'', PStr ''e@mail.com'')])] w0 =
     (Inl (ValueError ''Invalid customer data: missing name''),
      w0\<lparr>trace := [Print ''Invalid customer data: missing name'']\<rparr>)
   \<and> CustomerValidator_validate [(''name'', PStr ''John Doe'')] w0 =
     (Inl (ValueError ''Invalid customer data: missing contact info''),
      w0\<lparr>trace := [Print ''Invalid customer data: missing contact info'']\<rparr>)
   \<and> CustomerValidator_validate customer_data_with_email w0 = (Inr (), w0)"
  using customer_validator_checks_name_first
          [of "[(''contact_info'', PDict [(''email'', PStr ''e@mail.com'')])]" w0 "''x''" "[]"]
        customer_validator_checks_name_first
          [of "[(''name'', PStr ''John Doe'')]" w0 "''John Doe''" "[]"]
        customer_validator_checks_name_first
          [of customer_data_with_email w0 "''John Doe''" "[(''email'', PStr ''e@mail.com'')]"]
  by (simp add: w0_def customer_data_with_email_def)

subsection \<open>C4: the payment validator looks at the source only\<close>

text \<open>
  Claim C4. \<open>PaymentDataValidator.validate\<close> raises the \<^verbatim>\<open>ValueError\<close> with the message
  \<^verbatim>\<open>Invalid payment data\<close> when \<open>source\<close> is absent or empty (more generally, when
  \<^verbatim>\<open>payment_data.get("source")\<close> is false) and returns normally otherwise. The amount
  plays no role: two dictionaries that differ at most in the key \<open>amount\<close> get the same
  outcome.
\<close>

theorem payment_validator_checks_source_only:
  "(map_of p ''source'' = None \<or> map_of p ''source'' = Some (PStr '''') \<longrightarrow>
      PaymentDataValidator_validate p w =
        (Inl (ValueError ''Invalid payment data''),
         w\<lparr>trace := trace w @ [Print ''Invalid payment data'']\<rparr>))
   \<and> (fst (PaymentDataValidator_validate p w) =
        (if truthy (dict_get p ''source'') then Inr ()
         else Inl (ValueError ''Invalid payment data'')))
   \<and> (map_of p ''source'' = Some (PStr s) \<and> s \<noteq> '''' \<longrightarrow>
        PaymentDataValidator_validate p w = (Inr (), w))
   \<and> ((\<forall>k. k \<noteq> ''amount'' \<longrightarrow> map_of p' k = map_of p k) \<longrightarrow>
        fst (PaymentDataValidator_validate p' w) = fst (PaymentDataValidator_validate p w))"
  by (auto simp: PaymentDataValidator_validate_def dict_get_def io_defs split: option.splits)

theorem payment_validator_checks_source_only_witness:
  "PaymentDataValidator_validate [(''amount'', PInt 500)] w0 =
      (Inl (ValueError ''Invalid payment data''), w0\<lparr>trace := [Print ''Invalid payment data'']\<rparr>)
   \<and> PaymentDataValidator_validate
        [(''amount'', PStr ''a lot''), (''source'', PStr ''tok_mastercard'')] w0 = (Inr (), w0)
   \<and> fst (PaymentDataValidator_validate
             [(''amount'', PInt (- 5)), (''source'', PStr ''tok_mastercard'')] w0)
      = fst (PaymentDataValidator_validate
               [(''amount'', PStr ''a lot''), (''source'', PStr ''tok_mastercard'')] w0)"
  using payment_validator_checks_source_only
          [of "[(''amount'', PInt 500)]" w0 "''tok''" "[]"]
        payment_validator_checks_source_only
          [of "[(''amount'', PStr ''a lot''), (''source'', PStr ''tok_mastercard'')]" w0
              "''tok_mastercard''"
              "[(''amount'', PInt (- 5)), (''source'', PStr ''tok_mastercard'')]"]
  by (simp add: w0_def)

subsection \<open>C5: the notifier uses one channel, email before phone\<close>

text \<open>
  Claim C5 promises no dispatch and no error for every customer with neither an email
  nor a phone contact. A customer without the key \<open>contact_info\<close> has neither, and the
  unguarded index of line 45 raises \<^verbatim>\<open>KeyError\<close>.
\<close>

theorem notifier_without_contact_info_counterexample:
  "map_of [(''name'', PStr ''John Doe'')] ''contact_info'' = None
   \<and> Notifier_send_confirmation [(''name'', PStr ''John Doe'')] w0 =
       (Inl (KeyError ''contact_info''), w0)"
  by (simp add: Notifier_simps getitem_def)

text \<open>
  Claim C5, as amended. For every \<open>customer_data\<close> whose \<open>contact_info\<close> is a
  dictionary: with an \<open>email\<close> key exactly one email and no SMS is dispatched; with a
  \<open>phone\<close> key and no \<open>email\<close> key, exactly one SMS and no email; with neither key,
  nothing is dispatched and no exception is raised.
\<close>

theorem notifier_uses_one_channel:
  assumes "map_of c ''contact_info'' = Some (PDict d)"
  shows "(map_of d ''email'' = Some e \<longrightarrow>
            Notifier_send_confirmation c w = (Inr (), w\<lparr>trace := trace w @ [Email e]\<rparr>))
       \<and> (map_of d ''email'' = None \<and> map_of d ''phone'' = Some ph \<longrightarrow>
            Notifier_send_confirmation c w = (Inr (), w\<lparr>trace := trace w @ [SMS ph]\<rparr>))
       \<and> (map_of d ''email'' = None \<and> map_of d ''phone'' = None \<longrightarrow>
            Notifier_send_confirmation c w = (Inr (), w))"
  using assms by (simp add: Notifier_simps getitem_def)

theorem notifier_uses_one_channel_witness:
  "Notifier_send_confirmation customer_data_with_email w0 =
     (Inr (), w0\<lparr>trace := [Email (PStr ''e@mail.com'')]\<rparr>)
   \<and> Notifier_send_confirmation customer_data_with_phone w0 =
     (Inr (), w0\<lparr>trace := [SMS (PStr ''1234567890'')]\<rparr>)
   \<and> Notifier_send_confirmation [(''name'', PStr ''John Doe''), (''contact_info'', PDict [])] w0 =
     (Inr (), w0)"
  using notifier_uses_one_channel
          [of customer_data_with_email "[(''email'', PStr ''e@mail.com'')]" "PStr ''e@mail.com''" w0]
        notifier_uses_one_channel
          [of customer_data_with_phone "[(''phone'', PStr ''1234567890'')]" _ _ "PStr ''1234567890''"]
        notifier_uses_one_channel
          [of "[(''name'', PStr ''John Doe''), (''contact_info'', PDict [])]" "[]"]
  by (simp add: w0_def customer_data_with_email_def customer_data_with_phone_def)

subsection \<open>C6: the logger appends two lines\<close>

text \<open>
  Claim C6. For \<open>customer_data\<close> with name \<open>n\<close>, \<open>payment_data\<close> with amount \<open>a\<close> and a
  charge with status \<open>s\<close>, \<open>TransactionLogger.log\<close> returns normally, and the only
  change in the world is that the text of \<^verbatim>\<open>transactions.log\<close> is extended by the line
  \<^verbatim>\<open>{n} paid {a}\<close> and then the line \<^verbatim>\<open>Payment status: {s}\<close>, each ended by a newline.
\<close>

theorem logger_appends_two_lines:
  assumes "map_of c ''name'' = Some n"
    and "map_of p ''amount'' = Some a"
    and "map_of ch ''status'' = Some s"
  shows "TransactionLogger_log ev c p ch w =
     (Inr (),
      w\<lparr>files := (files w)(''transactions.log'' \<mapsto>
          file_text w ''transactions.log''
          @ (py_str (repr_dict ev) n @ '' paid '' @ py_str (repr_dict ev) a @ newline)
          @ (''Payment status: '' @ py_str (repr_dict ev) s @ newline))\<rparr>)"
  using assms
  by (simp add: TransactionLogger_log_def io_defs open_append_def file_write_def
      file_text_def log_path_def getitem_def)

theorem logger_appends_two_lines_witness:
  "TransactionLogger_log test_env customer_data_with_email payment_data_500
     [(''amount'', PInt 500), (''status'', PStr ''succeeded'')]
     (w0\<lparr>files := [''transactions.log'' \<mapsto> ''earlier line'' @ newline]\<rparr>) =
     (Inr (),
      w0\<lparr>files := [''transactions.log'' \<mapsto>
          ''earlier line'' @ newline
          @ ''John Doe paid 500'' @ newline
          @ ''Payment status: succeeded'' @ newline]\<rparr>)"
  using logger_appends_two_lines
          [of customer_data_with_email "PStr ''John Doe''" payment_data_500 "PInt 500"
              "[(''amount'', PInt 500), (''status'', PStr ''succeeded'')]" "PStr ''succeeded''"
              test_env "w0\<lparr>files := [''transactions.log'' \<mapsto> ''earlier line'' @ newline]\<rparr>"]
  by (simp add: sample_defs file_text_def str_of_int_def str_of_nat.simps digit_char_def newline_def)

subsection \<open>C7: the processor calls the provider once\<close>

text \<open>
  Claim C7. For \<open>payment_data\<close> with an amount and a source and \<open>customer_data\<close> whose
  name is a string, \<open>StripePaymentProcessor.process_transaction\<close> calls the provider
  exactly once, with that amount, the currency \<^verbatim>\<open>usd\<close>, that source and the
  description \<^verbatim>\<open>Charge for\<close> followed by the name. When the provider raises a
  \<^verbatim>\<open>StripeError\<close> the same error leaves the processor, with no second call; when the
  provider answers with a Charge, that Charge is returned unchanged.
\<close>

theorem processor_charges_once:
  assumes "map_of p ''amount'' = Some a"
    and "map_of p ''source'' = Some s"
    and "map_of c ''name'' = Some (PStr n)"
  shows "StripePaymentProcessor_process_transaction ev c p w =
     (let req = \<lparr>amount = a, currency = ''usd'', source = s, description = ''Charge for '' @ n\<rparr>;
          key = STRIPE_API_KEY ev
      in case Charge_create ev key req of
           Inl detail \<Rightarrow>
             (Inl (StripeError detail),
              w\<lparr>stripe_api_key := key,
                trace := trace w @ [ChargeCreate key req, Print (''Payment failed: '' @ detail)]\<rparr>)
         | Inr charge \<Rightarrow>
             (Inr charge,
              w\<lparr>stripe_api_key := key,
                trace := trace w @ [ChargeCreate key req, Print ''Payment successful'']\<rparr>))"
  using assms by (simp add: StripePaymentProcessor_unfold getitem_def Let_def)

theorem processor_charges_once_witness:
  "StripePaymentProcessor_process_transaction test_env customer_data_with_email payment_data_500 w0 =
     (Inr [(''amount'', PInt 500), (''status'', PStr ''succeeded'')],
      w0\<lparr>stripe_api_key := Some ''sk_test'',
         trace := [ChargeCreate (Some ''sk_test'')
                     \<lparr>amount = PInt 500, currency = ''usd'', source = PStr ''tok_mastercard'',
                      description = ''Charge for John Doe''\<rparr>,
                   Print ''Payment successful'']\<rparr>)
   \<and> StripePaymentProcessor_process_transaction test_env customer_data_with_email payment_data_700 w0 =
     (Inl (StripeError ''Your card was declined.''),
      w0\<lparr>stripe_api_key := Some ''sk_test'',
         trace := [ChargeCreate (Some ''sk_test'')
                     \<lparr>amount = PInt 700, currency = ''usd'', source = PStr ''tok_radarBlock'',
                      description = ''Charge for John Doe''\<rparr>,
                   Print ''Payment failed: Your card was declined.'']\<rparr>)"
  using processor_charges_once
          [of payment_data_500 "PInt 500" "PStr ''tok_mastercard''" customer_data_with_email
              "''John Doe''" test_env w0]
        processor_charges_once
          [of payment_data_700 "PInt 700" "PStr ''tok_radarBlock''" customer_data_with_email
              "''John Doe''" test_env w0]
  by (simp add: sample_defs Let_def)

subsection \<open>C8: the log file is one fixed path\<close>

text \<open>
  Claim C8 says that the caller chooses the path of the log file. The logger has no
  parameter for it: a caller who wants the log in \<^verbatim>\<open>audit.log\<close> finds nothing there,
  the two lines are in \<^verbatim>\<open>transactions.log\<close>.
\<close>

theorem log_path_not_caller_chosen_counterexample:
  "files (snd (TransactionLogger_log test_env customer_data_with_email payment_data_500
                 [(''amount'', PInt 500), (''status'', PStr ''succeeded'')] w0)) ''audit.log'' = None
   \<and> files (snd (TransactionLogger_log test_env customer_data_with_email payment_data_500
                 [(''amount'', PInt 500), (''status'', PStr ''succeeded'')] w0)) ''transactions.log''
       = Some (''John Doe paid 500'' @ newline @ ''Payment status: succeeded'' @ newline)"
  by (simp add: Logger_simps getitem_def sample_defs str_of_int_def str_of_nat.simps
      digit_char_def newline_def)

text \<open>
  Claim C8, as amended. Every call of \<open>TransactionLogger.log\<close>, whatever its arguments
  and whatever its outcome, leaves every file other than \<^verbatim>\<open>transactions.log\<close> as it
  was, and the text of \<^verbatim>\<open>transactions.log\<close> afterwards is its text before followed by
  what the call wrote: the log is one append-only text file at a path fixed in the code.
\<close>

theorem logger_writes_one_fixed_file:
  "(q \<noteq> ''transactions.log'' \<longrightarrow>
      files (snd (TransactionLogger_log ev c p ch w)) q = files w q)
   \<and> (\<exists>t. files (snd (TransactionLogger_log ev c p ch w)) ''transactions.log''
            = Some (file_text w ''transactions.log'' @ t))"
  by (simp add: Logger_simps getitem_def split: option.splits)

theorem logger_writes_one_fixed_file_witness:
  "''audit.log'' \<noteq> ''transactions.log''
   \<and> files (snd (TransactionLogger_log test_env customer_data_with_phone payment_data_500
                  [(''amount'', PInt 500), (''status'', PStr ''succeeded'')]
                  (w0\<lparr>files := [''audit.log'' \<mapsto> ''kept'']\<rparr>))) ''audit.log'' = Some ''kept''"
  using logger_writes_one_fixed_file
          [of "''audit.log''" test_env customer_data_with_phone payment_data_500
              "[(''amount'', PInt 500), (''status'', PStr ''succeeded'')]"
              "w0\<lparr>files := [''audit.log'' \<mapsto> ''kept'']\<rparr>"]
  by (simp add: w0_def)

subsection \<open>C9: the channel is chosen by the presence of the key\<close>

text \<open>
  Claim C9. When the \<open>contact_info\<close> dictionary has the key \<open>email\<close>, whatever its value
  and whatever else the dictionary holds, the notifier dispatches one email to that value
  and no SMS; and such a customer passes \<open>CustomerValidator.validate\<close> as soon as the name
  is accepted. So \<^verbatim>\<open>{"email": "", "phone": p}\<close> is validated and then routed to the
  empty email address.
\<close>

theorem notifier_selects_by_key_presence:
  assumes "map_of c ''contact_info'' = Some (PDict d)"
    and "map_of d ''email'' = Some v"
  shows "Notifier_send_confirmation c w = (Inr (), w\<lparr>trace := trace w @ [Email v]\<rparr>)
       \<and> (truthy (dict_get c ''name'') \<longrightarrow> CustomerValidator_validate c w' = (Inr (), w'))"
proof -
  from assms(2) have "d \<noteq> []" by auto
  with assms show ?thesis
    by (simp add: Notifier_simps getitem_def CustomerValidator_validate_def dict_get_def)
qed

theorem notifier_selects_by_key_presence_witness:
  "CustomerValidator_validate
     [(''name'', PStr ''John Doe''),
      (''contact_info'', PDict [(''email'', PStr ''''), (''phone'', PStr ''1234567890'')])] w0
     = (Inr (), w0)
   \<and> Notifier_send_confirmation
     [(''name'', PStr ''John Doe''),
      (''contact_info'', PDict [(''email'', PStr ''''), (''phone'', PStr ''1234567890'')])] w0
     = (Inr (), w0\<lparr>trace := [Email (PStr '''')]\<rparr>)"
  using notifier_selects_by_key_presence
          [of "[(''name'', PStr ''John Doe''),
                (''contact_info'', PDict [(''email'', PStr ''''), (''phone'', PStr ''1234567890'')])]"
              "[(''email'', PStr ''''), (''phone'', PStr ''1234567890'')]" "PStr ''''" w0 w0]
  by (simp add: w0_def dict_get_def)

subsection \<open>C10: the unguarded index of the notifier\<close>

text \<open>
  Claim C10. For every \<open>customer_data\<close> without the key \<open>contact_info\<close> the notifier
  raises \<^verbatim>\<open>KeyError\<close> and does nothing else. Inside the service this cannot happen:
  for such a customer the service ends with the validator's \<^verbatim>\<open>ValueError\<close> and no
  notification; a customer that the validator accepts never makes the notifier raise that
  \<^verbatim>\<open>KeyError\<close>; and the service never ends with it.
\<close>


theorem notifier_KeyError_unreachable_in_service:
  "(map_of c ''contact_info'' = None \<longrightarrow>
      Notifier_send_confirmation c w = (Inl (KeyError ''contact_info''), w))
   \<and> (map_of c ''contact_info'' = None \<longrightarrow>
      (\<exists>msg. fst (PaymentService_process_transaction ev c p w) = Inl (ValueError msg))
      \<and> notifications (snd (PaymentService_process_transaction ev c p w)) = notifications w)
   \<and> (fst (CustomerValidator_validate c w1) = Inr u \<longrightarrow>
      fst (Notifier_send_confirmation c w2) \<noteq> Inl (KeyError ''contact_info''))
   \<and> fst (PaymentService_process_transaction ev c p w) \<noteq> Inl (KeyError ''contact_info'')"
proof -
  have a: "Notifier_send_confirmation c w = (Inl (KeyError ''contact_info''), w)"
    if "map_of c ''contact_info'' = None"
    using that by (simp add: Notifier_simps getitem_def)
  have b: "(\<exists>msg. fst (PaymentService_process_transaction ev c p w) = Inl (ValueError msg))
      \<and> notifications (snd (PaymentService_process_transaction ev c p w)) = notifications w"
    if "map_of c ''contact_info'' = None"
    using that
    by (simp add: service_sequence CustomerValidator_validate_def io_defs dict_get_def
        notifications_def)
  have c: "fst (Notifier_send_confirmation c w2) \<noteq> Inl (KeyError ''contact_info'')"
    if "fst (CustomerValidator_validate c w1) = Inr u" for w1 w2 u
    using Notifier_KeyError [of c w2 "''contact_info''"] CustomerValidator_accepts [OF that]
    by blast
  have d: "fst (PaymentService_process_transaction ev c p w) \<noteq> Inl (KeyError ''contact_info'')"
  proof
    assume k: "fst (PaymentService_process_transaction ev c p w) = Inl (KeyError ''contact_info'')"
    obtain r1 w1 where s1: "CustomerValidator_validate c w = (r1, w1)"
      by (cases "CustomerValidator_validate c w")
    obtain r2 w2 where s2: "PaymentDataValidator_validate p w1 = (r2, w2)"
      by (cases "PaymentDataValidator_validate p w1")
    obtain r3 w3 where s3: "StripePaymentProcessor_process_transaction ev c p w2 = (r3, w3)"
      by (cases "StripePaymentProcessor_process_transaction ev c p w2")
    obtain r4 w4 where s4: "Notifier_send_confirmation c w3 = (r4, w4)"
      by (cases "Notifier_send_confirmation c w3")
    have n1: "r1 \<noteq> Inl (KeyError ''contact_info'')"
      using s1 by (auto simp: CustomerValidator_validate_def io_defs split: if_splits)
    have n2: "r2 \<noteq> Inl (KeyError ''contact_info'')"
      using s2 by (auto simp: PaymentDataValidator_validate_def io_defs split: if_splits)
    have n3: "r3 \<noteq> Inl (KeyError ''contact_info'')"
      using s3 StripePaymentProcessor_no_contact_KeyError [of ev c p w2] by simp
    have n4: "r4 \<noteq> Inl (KeyError ''contact_info'')" if "r1 = Inr u" for u
      using c [of w u w3] s1 s4 that by simp
    have n5: "TransactionLogger_log ev c p ch w4 \<noteq> (Inl (KeyError ''contact_info''), w5)"
      for ch w5
      using TransactionLogger_no_contact_KeyError [of ev c p ch w4] by auto
    from k s1 s2 s3 s4 n1 n2 n3 n4 n5 show False
      by (auto simp: service_sequence io_bind_def return_def split: sum.splits prod.splits)
  qed
  from a b c d show ?thesis by blast
qed

theorem notifier_KeyError_unreachable_in_service_witness:
  "Notifier_send_confirmation [(''name'', PStr ''John Doe'')] w0 =
     (Inl (KeyError ''contact_info''), w0)
   \<and> PaymentService_process_transaction test_env [(''name'', PStr ''John Doe'')] payment_data_500 w0 =
     (Inl (ValueError ''Invalid customer data: missing contact info''),
      w0\<lparr>trace := [Print ''Invalid customer data: missing contact info'']\<rparr>)
   \<and> fst (Notifier_send_confirmation customer_data_with_phone w0) \<noteq> Inl (KeyError ''contact_info'')"
proof -
  have v: "fst (CustomerValidator_validate customer_data_with_phone w0) = Inr ()"
    by (simp add: CustomerValidator_validate_def io_defs dict_get_def sample_defs)
  have s: "PaymentService_process_transaction test_env [(''name'', PStr ''John Doe'')]
             payment_data_500 w0 =
     (Inl (ValueError ''Invalid customer data: missing contact info''),
      w0\<lparr>trace := [Print ''Invalid customer data: missing contact info'']\<rparr>)"
    by (simp add: service_sequence CustomerValidator_validate_def io_defs dict_get_def w0_def)
  from notifier_KeyError_unreachable_in_service
         [of "[(''name'', PStr ''John Doe'')]" w0 test_env payment_data_500]
       notifier_KeyError_unreachable_in_service
         [of customer_data_with_phone w0 test_env payment_data_500 w0 "()" w0] v s
  show ?thesis by simp
qed

end
